theory Spec2Isabelle
  imports
    Complex_Main
    "HOL-Library.Option_ord"
    "HOL-Library.Char_ord"
    "HOL-Library.List_Lexorder"
    "HOL-Library.Product_Lexorder"
begin

section \<open>Stored values\<close>

text \<open>
  The three base tables are written by pandas' \<open>to_sql\<close> without any declared constraint, so
  every column is nullable and holds whatever the CSV held. A cell of a key column is one of
  SQLite's storage classes. Finite floating point values are represented by the rational
  they denote; NaN is stored by SQLite as NULL.
\<close>

datatype sqlval = Null | Integer int | Real rat | Text string

text \<open>Bounds of SQLite's 64-bit signed integers; casts saturate at them.\<close>

definition LARGEST_INT64 :: int where
  "LARGEST_INT64 = 9223372036854775807"

definition SMALLEST_INT64 :: int where
  "SMALLEST_INT64 = - 9223372036854775808"

definition clamp_int64 :: "int \<Rightarrow> int" where
  "clamp_int64 i = max SMALLEST_INT64 (min LARGEST_INT64 i)"

text \<open>The characters SQLite skips in front of a number: space, TAB, LF, VT, FF, CR.\<close>

definition sqlite3Isspace :: "char \<Rightarrow> bool" where
  "sqlite3Isspace c = (c = CHR '' '' \<or> (9 \<le> (of_char c :: nat) \<and> (of_char c :: nat) \<le> 13))"

definition is_digit :: "char \<Rightarrow> bool" where
  "is_digit c = (48 \<le> (of_char c :: nat) \<and> (of_char c :: nat) \<le> 57)"

text \<open>Value of the longest prefix of decimal digits, accumulated left to right.\<close>

fun digits_value :: "nat \<Rightarrow> string \<Rightarrow> nat" where
  "digits_value acc [] = acc"
| "digits_value acc (c # cs) =
     (if is_digit c then digits_value (10 * acc + (of_char c - 48)) cs else acc)"

text \<open>
  \<open>CAST(text AS INTEGER)\<close>: leading white space is skipped, an optional sign is read, the
  longest prefix of digits is the value, and a text without such a prefix is 0.
\<close>

definition text_to_integer :: "string \<Rightarrow> int" where
  "text_to_integer s =
     (case dropWhile sqlite3Isspace s of
        [] \<Rightarrow> 0
      | c # cs \<Rightarrow>
          if c = CHR ''-'' then clamp_int64 (- int (digits_value 0 cs))
          else if c = CHR ''+'' then clamp_int64 (int (digits_value 0 cs))
          else clamp_int64 (int (digits_value 0 (c # cs))))"

text \<open>\<open>CAST(real AS INTEGER)\<close> truncates towards zero.\<close>

definition real_to_integer :: "rat \<Rightarrow> int" where
  "real_to_integer r = clamp_int64 (if 0 \<le> r then \<lfloor>r\<rfloor> else \<lceil>r\<rceil>)"

fun cast_integer :: "sqlval \<Rightarrow> int option" where
  "cast_integer Null = None"
| "cast_integer (Integer i) = Some i"
| "cast_integer (Real r) = Some (real_to_integer r)"
| "cast_integer (Text s) = Some (text_to_integer s)"

text \<open>
  A comparison \<open>a = b\<close> in an \<open>ON\<close> or \<open>WHERE\<close> clause selects a row only when it is
  true; with a NULL operand it is unknown and the row is not selected.
\<close>

fun int_equal :: "int option \<Rightarrow> int option \<Rightarrow> bool" where
  "int_equal (Some a) (Some b) = (a = b)"
| "int_equal _ _ = False"

fun COALESCE :: "'a option \<Rightarrow> 'a \<Rightarrow> 'a" where
  "COALESCE None d = d"
| "COALESCE (Some v) d = v"

text \<open>\<open>TRIM(s)\<close> with one argument removes spaces (only U+0020) from both ends.\<close>

definition TRIM :: "string \<Rightarrow> string" where
  "TRIM s = rev (dropWhile (\<lambda>c. c = CHR '' '') (rev (dropWhile (\<lambda>c. c = CHR '' '') s)))"

section \<open>Base tables\<close>

text \<open>
  Columns of the base tables that the dashboard and the report read. The community area
  number is kept as a raw cell since the statements cast it; measures are numeric or NULL.
\<close>

record census_row =
  census_COMMUNITY_AREA_NUMBER :: sqlval
  census_COMMUNITY_AREA_NAME :: "string option"
  census_HARDSHIP_INDEX :: "rat option"
  census_PERCENT_HOUSEHOLDS_BELOW_POVERTY :: "rat option"
  census_PER_CAPITA_INCOME :: "rat option"

record school_row =
  school_School_ID :: "int option"
  school_COMMUNITY_AREA_NUMBER :: sqlval
  school_SAFETY_SCORE :: "rat option"

record crime_row =
  crime_ID :: "int option"
  crime_CASE_NUMBER :: "string option"
  crime_PRIMARY_TYPE :: "string option"
  crime_DESCRIPTION :: "string option"
  crime_COMMUNITY_AREA_NUMBER :: sqlval
  crime_YEAR :: "int option"

text \<open>The database file: a table that was never written is absent.\<close>

record database =
  CENSUS_DATA :: "census_row list option"
  CHICAGO_PUBLIC_SCHOOLS :: "school_row list option"
  CHICAGO_CRIME_DATA :: "crime_row list option"

section \<open>Rows of the enriched crime dataset and the income segment\<close>

record enriched_crime =
  crime_id :: "int option"
  case_number :: string
  primary_type :: string
  description :: string
  crime_community_area_number :: "int option"
  crime_community_area_name :: string
  per_capita_income :: "rat option"
  crime_poverty_rate :: "rat option"
  crime_hardship_index :: "rat option"
  crime_year :: "int option"

definition Low_Income_Areas :: string where
  "Low_Income_Areas = ''Low Income Areas''"

definition High_Income_Areas :: string where
  "High_Income_Areas = ''High Income Areas''"

definition Unknown_Missing_Income :: string where
  "Unknown_Missing_Income = ''Unknown / Missing Income''"

text \<open>\<open>Series.isna()\<close>: a missing income is NaN in the frame.\<close>

definition isna :: "rat option \<Rightarrow> bool" where
  "isna v = (v = None)"

text \<open>
  \<open>working_df["per_capita_income"] <= income_threshold\<close>: the comparison of NaN with
  anything is False.
\<close>

definition le_threshold :: "rat option \<Rightarrow> int \<Rightarrow> bool" where
  "le_threshold v t = (case v of None \<Rightarrow> False | Some x \<Rightarrow> x \<le> of_int t)"

definition np_where :: "bool \<Rightarrow> 'a \<Rightarrow> 'a \<Rightarrow> 'a" where
  "np_where c a b = (if c then a else b)"

text \<open>The label \<open>render_crime_hotspots_tab\<close> computes for one row of \<open>working_df\<close>.\<close>

definition income_segment :: "int \<Rightarrow> enriched_crime \<Rightarrow> string" where
  "income_segment income_threshold r =
     np_where (isna (per_capita_income r))
       Unknown_Missing_Income
       (np_where (le_threshold (per_capita_income r) income_threshold)
          Low_Income_Areas
          High_Income_Areas)"

text \<open>\<open>working_df\<close>: every row of the input with its label, in the input's order.\<close>

definition working_df :: "int \<Rightarrow> enriched_crime list \<Rightarrow> (enriched_crime \<times> string) list" where
  "working_df income_threshold crime_df = map (\<lambda>r. (r, income_segment income_threshold r)) crime_df"

section \<open>Frames and Python exceptions\<close>

text \<open>
  A pandas frame is its list of column labels and its rows. \<open>pd.DataFrame()\<close> has neither.
  Reading a column that the frame does not have raises \<open>KeyError\<close>.
\<close>

datatype 'r frame = DataFrame (columns: "string list") (rows: "'r list")

datatype py_exception =
    KeyError string
  | DatabaseError string
  | Sqlite3_Error string

definition empty_DataFrame :: "'r frame" where
  "empty_DataFrame = DataFrame [] []"

text \<open>
  \<open>run_query\<close> of the dashboard: whatever \<open>pd.read_sql_query\<close> raises is caught
  (\<open>except Exception\<close>), reported with \<open>st.error\<close>, and an empty frame is returned.
\<close>

definition run_query :: "py_exception + 'r frame \<Rightarrow> 'r frame" where
  "run_query outcome = (case outcome of Inl exc \<Rightarrow> empty_DataFrame | Inr df \<Rightarrow> df)"

text \<open>
  \<open>for col in cols: df[col] = pd.to_numeric(df[col], errors="coerce")\<close>. The cells of the
  numeric columns are numbers or missing already, so the conversion leaves them as they are;
  what remains of the loop is the column look-up, which raises for a missing label.
\<close>

fun to_numeric_columns :: "string list \<Rightarrow> 'r frame \<Rightarrow> py_exception + 'r frame" where
  "to_numeric_columns [] df = Inr df"
| "to_numeric_columns (col # cols) df =
     (if col \<in> set (columns df) then to_numeric_columns cols df else Inl (KeyError col))"

section \<open>Relational operators\<close>

text \<open>
  \<open>l LEFT JOIN r ON cond\<close>: every left row with each right row that satisfies the
  condition, or once with an all-NULL right side when none does.
\<close>

definition left_join :: "('l \<Rightarrow> 'r \<Rightarrow> bool) \<Rightarrow> 'l list \<Rightarrow> 'r list \<Rightarrow> ('l \<times> 'r option) list" where
  "left_join cond ls rs =
     concat (map (\<lambda>l. case filter (cond l) rs of
                          [] \<Rightarrow> [(l, None)]
                        | m # ms \<Rightarrow> map (\<lambda>r. (l, Some r)) (m # ms)) ls)"

fun non_null :: "'a option list \<Rightarrow> 'a list" where
  "non_null [] = []"
| "non_null (None # vs) = non_null vs"
| "non_null (Some v # vs) = v # non_null vs"

text \<open>\<open>AVG\<close> ignores NULL and is NULL for a group without a non-NULL value.\<close>

definition AVG :: "rat option list \<Rightarrow> rat option" where
  "AVG vs = (case non_null vs of
               [] \<Rightarrow> None
             | x # xs \<Rightarrow> Some (sum_list (x # xs) / of_nat (length (x # xs))))"

text \<open>\<open>COUNT(expr)\<close> counts the rows where the expression is not NULL.\<close>

definition COUNT :: "'a option list \<Rightarrow> nat" where
  "COUNT vs = length (non_null vs)"

section \<open>View Builder: the community aggregate\<close>

record community_aggregate =
  community_area_number :: "int option"
  community_area_name :: "string option"
  hardship_index :: "rat option"
  poverty_rate :: "rat option"
  avg_safety_score :: "rat option"
  school_count :: nat

type_synonym socio_key = "int option \<times> string option \<times> rat option \<times> rat option"

text \<open>\<open>ON CAST(s.COMMUNITY_AREA_NUMBER AS INTEGER) = CAST(c.COMMUNITY_AREA_NUMBER AS INTEGER)\<close>\<close>

definition socio_on :: "census_row \<Rightarrow> school_row \<Rightarrow> bool" where
  "socio_on c s =
     int_equal (cast_integer (school_COMMUNITY_AREA_NUMBER s))
               (cast_integer (census_COMMUNITY_AREA_NUMBER c))"

text \<open>
  \<open>WHERE c.COMMUNITY_AREA_NUMBER IS NOT NULL AND TRIM(COALESCE(c.COMMUNITY_AREA_NAME, '')) <> ''\<close>
\<close>

definition socio_where :: "census_row \<Rightarrow> bool" where
  "socio_where c =
     (census_COMMUNITY_AREA_NUMBER c \<noteq> Null
      \<and> TRIM (COALESCE (census_COMMUNITY_AREA_NAME c) []) \<noteq> [])"

text \<open>The four \<open>GROUP BY\<close> expressions.\<close>

definition socio_key :: "census_row \<Rightarrow> socio_key" where
  "socio_key c =
     (cast_integer (census_COMMUNITY_AREA_NUMBER c),
      census_COMMUNITY_AREA_NAME c,
      census_HARDSHIP_INDEX c,
      census_PERCENT_HOUSEHOLDS_BELOW_POVERTY c)"

text \<open>
  The \<open>SELECT\<close> list over one group: \<open>CASE WHEN s.SAFETY_SCORE IS NOT NULL THEN
  s.SAFETY_SCORE END\<close> is the score itself or NULL, and the columns of an unmatched right
  side are NULL.
\<close>

definition safety_score_of :: "school_row option \<Rightarrow> rat option" where
  "safety_score_of s = (case s of None \<Rightarrow> None | Some sr \<Rightarrow> school_SAFETY_SCORE sr)"

definition school_id_of :: "school_row option \<Rightarrow> int option" where
  "school_id_of s = (case s of None \<Rightarrow> None | Some sr \<Rightarrow> school_School_ID sr)"

definition socio_select :: "socio_key \<Rightarrow> (census_row \<times> school_row option) list \<Rightarrow> community_aggregate" where
  "socio_select k grp =
     (case k of (n, name, hardship, poverty) \<Rightarrow>
        \<lparr>community_area_number = n,
         community_area_name = name,
         hardship_index = hardship,
         poverty_rate = poverty,
         avg_safety_score = AVG (map (safety_score_of \<circ> snd) grp),
         school_count = COUNT (map (school_id_of \<circ> snd) grp)\<rparr>)"

text \<open>
  The statement of \<open>load_socioeducation_dataset\<close>: join, filter, group, aggregate, order.
  SQLite forms the groups in the order of their keys (NULL first, numbers by value, text by
  bytes); \<open>ORDER BY community_area_number\<close> then orders by the first key.
\<close>

definition socio_joined :: "census_row list \<Rightarrow> school_row list \<Rightarrow> (census_row \<times> school_row option) list" where
  "socio_joined census schools =
     filter (\<lambda>(c, s). socio_where c) (left_join socio_on census schools)"

definition socio_groups :: "(census_row \<times> school_row option) list \<Rightarrow> socio_key list" where
  "socio_groups joined = sort (remdups (map (socio_key \<circ> fst) joined))"

definition socio_sql :: "census_row list \<Rightarrow> school_row list \<Rightarrow> community_aggregate list" where
  "socio_sql census schools =
     (let joined = socio_joined census schools
      in sort_key community_area_number
           (map (\<lambda>k. socio_select k (filter (\<lambda>(c, s). socio_key c = k) joined))
                (socio_groups joined)))"

definition socio_columns :: "string list" where
  "socio_columns =
     [''community_area_number'', ''community_area_name'', ''hardship_index'',
      ''poverty_rate'', ''avg_safety_score'', ''school_count'']"

text \<open>
  \<open>pd.read_sql_query\<close> on the statement: it fails when a table it names does not exist.
\<close>

definition socio_read_sql_query :: "database \<Rightarrow> py_exception + community_aggregate frame" where
  "socio_read_sql_query db =
     (case CENSUS_DATA db of
        None \<Rightarrow> Inl (DatabaseError ''no such table: CENSUS_DATA'')
      | Some census \<Rightarrow>
          (case CHICAGO_PUBLIC_SCHOOLS db of
             None \<Rightarrow> Inl (DatabaseError ''no such table: CHICAGO_PUBLIC_SCHOOLS'')
           | Some schools \<Rightarrow> Inr (DataFrame socio_columns (socio_sql census schools))))"

definition socio_numeric_cols :: "string list" where
  "socio_numeric_cols =
     [''community_area_number'', ''hardship_index'', ''poverty_rate'',
      ''avg_safety_score'', ''school_count'']"

definition load_socioeducation_dataset :: "database \<Rightarrow> py_exception + community_aggregate frame" where
  "load_socioeducation_dataset db =
     to_numeric_columns socio_numeric_cols (run_query (socio_read_sql_query db))"

text \<open>
  Three notions to state properties of the result: the grouping tuple that a row of the
  result carries, the census rows that pass the \<open>WHERE\<close> clause, and the schools that
  the join attaches to the census rows of one group.
\<close>

definition out_key :: "community_aggregate \<Rightarrow> socio_key" where
  "out_key row =
     (community_area_number row, community_area_name row, hardship_index row, poverty_rate row)"

definition survivors :: "census_row list \<Rightarrow> census_row list" where
  "survivors census = filter socio_where census"


section \<open>View Builder: the enriched crime dataset\<close>

text \<open>\<open>ON CAST(cr.COMMUNITY_AREA_NUMBER AS INTEGER) = CAST(c.COMMUNITY_AREA_NUMBER AS INTEGER)\<close>\<close>

definition crime_on :: "crime_row \<Rightarrow> census_row \<Rightarrow> bool" where
  "crime_on cr c =
     int_equal (cast_integer (crime_COMMUNITY_AREA_NUMBER cr))
               (cast_integer (census_COMMUNITY_AREA_NUMBER c))"

text \<open>\<open>WHERE cr.COMMUNITY_AREA_NUMBER IS NOT NULL\<close>\<close>

definition crime_where :: "crime_row \<Rightarrow> bool" where
  "crime_where cr = (crime_COMMUNITY_AREA_NUMBER cr \<noteq> Null)"

definition crime_select :: "crime_row \<times> census_row option \<Rightarrow> enriched_crime" where
  "crime_select p =
     (case p of (cr, c) \<Rightarrow>
        \<lparr>crime_id = crime_ID cr,
         case_number = COALESCE (crime_CASE_NUMBER cr) ''N/A'',
         primary_type = COALESCE (crime_PRIMARY_TYPE cr) ''UNKNOWN'',
         description = COALESCE (crime_DESCRIPTION cr) ''No description'',
         crime_community_area_number = cast_integer (crime_COMMUNITY_AREA_NUMBER cr),
         crime_community_area_name =
           COALESCE (case c of None \<Rightarrow> None | Some cn \<Rightarrow> census_COMMUNITY_AREA_NAME cn) ''Unknown'',
         per_capita_income = (case c of None \<Rightarrow> None | Some cn \<Rightarrow> census_PER_CAPITA_INCOME cn),
         crime_poverty_rate =
           (case c of None \<Rightarrow> None | Some cn \<Rightarrow> census_PERCENT_HOUSEHOLDS_BELOW_POVERTY cn),
         crime_hardship_index = (case c of None \<Rightarrow> None | Some cn \<Rightarrow> census_HARDSHIP_INDEX cn),
         crime_year = crime_YEAR cr\<rparr>)"

definition crime_sql :: "census_row list \<Rightarrow> crime_row list \<Rightarrow> enriched_crime list" where
  "crime_sql census crime =
     map crime_select (filter (\<lambda>(cr, c). crime_where cr) (left_join crime_on crime census))"

definition crime_columns :: "string list" where
  "crime_columns =
     [''crime_id'', ''case_number'', ''primary_type'', ''description'',
      ''community_area_number'', ''community_area_name'', ''per_capita_income'',
      ''poverty_rate'', ''hardship_index'', ''crime_year'']"

definition crime_read_sql_query :: "database \<Rightarrow> py_exception + enriched_crime frame" where
  "crime_read_sql_query db =
     (case CHICAGO_CRIME_DATA db of
        None \<Rightarrow> Inl (DatabaseError ''no such table: CHICAGO_CRIME_DATA'')
      | Some crime \<Rightarrow>
          (case CENSUS_DATA db of
             None \<Rightarrow> Inl (DatabaseError ''no such table: CENSUS_DATA'')
           | Some census \<Rightarrow> Inr (DataFrame crime_columns (crime_sql census crime))))"

definition crime_numeric_cols :: "string list" where
  "crime_numeric_cols =
     [''community_area_number'', ''per_capita_income'', ''poverty_rate'', ''hardship_index'']"

definition load_crime_dataset :: "database \<Rightarrow> py_exception + enriched_crime frame" where
  "load_crime_dataset db =
     to_numeric_columns crime_numeric_cols (run_query (crime_read_sql_query db))"

section \<open>Segmentation and ranking: the top crime types\<close>

text \<open>
  \<open>compare_df\<close>: the rows of \<open>working_df\<close> whose label is one of the two income segments.
\<close>

definition compare_df :: "(enriched_crime \<times> string) list \<Rightarrow> (enriched_crime \<times> string) list" where
  "compare_df wdf = filter (\<lambda>row. snd row \<in> set [Low_Income_Areas, High_Income_Areas]) wdf"

text \<open>
  \<open>groupby(keys, dropna=False)\<close> sorts the distinct keys (\<open>sort=True\<close> is the default);
  \<open>.size()\<close> counts the rows of each group, \<open>[col].sum()\<close> adds a column over each group.
\<close>

definition groupby_size :: "('a \<Rightarrow> 'k::linorder) \<Rightarrow> 'a list \<Rightarrow> ('k \<times> nat) list" where
  "groupby_size key df =
     map (\<lambda>k. (k, length (filter (\<lambda>r. key r = k) df))) (sort (remdups (map key df)))"

definition groupby_sum :: "('a \<Rightarrow> 'k::linorder) \<Rightarrow> ('a \<Rightarrow> nat) \<Rightarrow> 'a list \<Rightarrow> ('k \<times> nat) list" where
  "groupby_sum key val df =
     map (\<lambda>k. (k, sum_list (map val (filter (\<lambda>r. key r = k) df)))) (sort (remdups (map key df)))"

text \<open>
  \<open>grouped\<close>: one row per (income segment, primary type) with its \<open>crime_count\<close>.
\<close>

definition grouped :: "(enriched_crime \<times> string) list \<Rightarrow> ((string \<times> string) \<times> nat) list" where
  "grouped cdf = groupby_size (\<lambda>row. (snd row, primary_type (fst row))) cdf"

text \<open>
  \<open>Series.sort_values(ascending=False)\<close>: pandas reverses the values, sorts them in
  ascending order and reverses the result, so that with a stable sort equal values keep
  their order. The sort is modelled as stable; numpy's default sort promises no order among
  equal values, and the properties below do not depend on one.
\<close>

definition sort_values_descending :: "('k \<times> nat) list \<Rightarrow> ('k \<times> nat) list" where
  "sort_values_descending s = rev (sort_key snd (rev s))"

text \<open>\<open>head(n)\<close>: the first \<open>n\<close> rows, or all but the last \<open>-n\<close> for a negative \<open>n\<close>.\<close>

definition head :: "int \<Rightarrow> 'a list \<Rightarrow> 'a list" where
  "head n xs = (if 0 \<le> n then take (nat n) xs else take (length xs - nat (- n)) xs)"

text \<open>The columns \<open>primary_type\<close> and \<open>crime_count\<close> of \<open>grouped\<close>.\<close>

definition grouped_primary_type :: "(string \<times> string) \<times> nat \<Rightarrow> string" where
  "grouped_primary_type row = snd (fst row)"

definition crime_count :: "(string \<times> string) \<times> nat \<Rightarrow> nat" where
  "crime_count row = snd row"

definition top_crimes :: "int \<Rightarrow> ((string \<times> string) \<times> nat) list \<Rightarrow> string list" where
  "top_crimes top_n g =
     map fst (head top_n (sort_values_descending (groupby_sum grouped_primary_type crime_count g)))"

text \<open>
  The part of \<open>render_crime_hotspots_tab\<close> that ranks the crime types; the function
  returns early, without a ranking, when the input or the comparison frame is empty.
\<close>

definition hotspots_top_crimes :: "enriched_crime list \<Rightarrow> int \<Rightarrow> int \<Rightarrow> string list option" where
  "hotspots_top_crimes crime_df income_threshold top_n =
     (if crime_df = [] then None
      else let cdf = compare_df (working_df income_threshold crime_df)
           in if cdf = [] then None else Some (top_crimes top_n (grouped cdf)))"

text \<open>The frequency of a primary type: the number of rows of the frame that carry it.\<close>

definition frequency :: "(enriched_crime \<times> string) list \<Rightarrow> string \<Rightarrow> nat" where
  "frequency cdf ty = length (filter (\<lambda>row. primary_type (fst row) = ty) cdf)"

text \<open>The primary types of a frame as \<open>groupby\<close> lists them: each once, sorted.\<close>

definition present_types :: "(enriched_crime \<times> string) list \<Rightarrow> string list" where
  "present_types cdf = sort (remdups (map grouped_primary_type (grouped cdf)))"

section \<open>Report Runner: the statements of problems 8 and 10\<close>

text \<open>
  SQLite's order of stored values, which also decides which values fall into one group:
  NULL first, then numbers by value (an integer and a real of the same value are equal),
  then text by bytes.
\<close>

fun storage_order :: "sqlval \<Rightarrow> nat \<times> rat \<times> string" where
  "storage_order Null = (0, 0, [])"
| "storage_order (Integer i) = (1, of_int i, [])"
| "storage_order (Real r) = (1, r, [])"
| "storage_order (Text s) = (2, 0, s)"

text \<open>
  \<open>a = b\<close> in a \<open>WHERE\<close> clause between two columns of the same affinity: not true when an
  operand is NULL, otherwise true when both values are equal in the order above.
\<close>

definition sql_equal :: "sqlval \<Rightarrow> sqlval \<Rightarrow> bool" where
  "sql_equal a b = (a \<noteq> Null \<and> b \<noteq> Null \<and> storage_order a = storage_order b)"

text \<open>
  \<open>SELECT COMMUNITY_AREA_NUMBER, COUNT(*) FROM CHICAGO_CRIME_DATA WHERE COMMUNITY_AREA_NUMBER
  IS NOT NULL GROUP BY COMMUNITY_AREA_NUMBER\<close>: the groups in the order of their values, each
  with the number as its first row stores it and the count of its rows.
\<close>

definition crime_groups :: "crime_row list \<Rightarrow> (sqlval \<times> nat) list" where
  "crime_groups crime =
     (let numbers = filter (\<lambda>v. v \<noteq> Null) (map crime_COMMUNITY_AREA_NUMBER crime)
      in map (\<lambda>k. (hd (filter (\<lambda>v. storage_order v = k) numbers),
                    length (filter (\<lambda>v. storage_order v = k) numbers)))
             (sort (remdups (map storage_order numbers))))"

text \<open>
  \<open>ORDER BY count DESC LIMIT 1\<close>. SQL leaves open which of several groups with the largest
  count comes first; the two statements below order the same groups in the same way, and the
  model takes the first such group in the order of the groups for both.
\<close>

definition order_by_count_desc :: "(sqlval \<times> nat) list \<Rightarrow> (sqlval \<times> nat) list" where
  "order_by_count_desc groups = sort_key (\<lambda>g. - int (snd g)) groups"

definition limit :: "nat \<Rightarrow> 'a list \<Rightarrow> 'a list" where
  "limit n rs = take n rs"

text \<open>Problem 8: the number and the count of the most crime-prone community area.\<close>

definition query8 :: "crime_row list \<Rightarrow> (sqlval \<times> nat) list" where
  "query8 crime = limit 1 (order_by_count_desc (crime_groups crime))"

text \<open>
  The scalar subquery of problem 10 selects the number alone, ordered by \<open>COUNT(*)\<close>; a
  scalar subquery without a row is NULL.
\<close>

definition query10_subquery :: "crime_row list \<Rightarrow> sqlval" where
  "query10_subquery crime =
     (case limit 1 (map fst (order_by_count_desc (crime_groups crime))) of
        [] \<Rightarrow> Null
      | n # rest \<Rightarrow> n)"

text \<open>Problem 10: the names of the census rows whose number equals the subquery.\<close>

definition query10 :: "census_row list \<Rightarrow> crime_row list \<Rightarrow> string option list" where
  "query10 census crime =
     map census_COMMUNITY_AREA_NAME
       (filter (\<lambda>c. sql_equal (census_COMMUNITY_AREA_NUMBER c) (query10_subquery crime)) census)"

section \<open>Report Runner: running the ten problems\<close>

text \<open>
  What the SQLite driver does with the statement of one problem. A statement that cannot be
  prepared or started (malformed SQL, a table or column that does not exist) fails in
  \<open>cursor.execute\<close>; a statement can also fail later, while its rows are fetched.
\<close>

datatype driver_outcome =
    Execute_failed string
  | Fetch_failed string
  | Fetched "sqlval list frame"

type_synonym connection = "nat \<Rightarrow> driver_outcome"

text \<open>
  \<open>pd.read_sql_query(query, self.conn)\<close>. pandas wraps every exception of
  \<open>cursor.execute\<close> in its own \<open>pandas.errors.DatabaseError\<close> (a subclass of \<open>OSError\<close>,
  not of \<open>sqlite3.Error\<close>); an error of the driver while fetching passes through as it is.
\<close>

definition pd_read_sql_query :: "connection \<Rightarrow> nat \<Rightarrow> py_exception + sqlval list frame" where
  "pd_read_sql_query conn query_num =
     (case conn query_num of
        Execute_failed msg \<Rightarrow> Inl (DatabaseError msg)
      | Fetch_failed msg \<Rightarrow> Inl (Sqlite3_Error msg)
      | Fetched result \<Rightarrow> Inr result)"

text \<open>\<open>except Error\<close> with \<open>from sqlite3 import Error\<close>.\<close>

fun is_sqlite3_Error :: "py_exception \<Rightarrow> bool" where
  "is_sqlite3_Error (Sqlite3_Error msg) = True"
| "is_sqlite3_Error (DatabaseError msg) = False"
| "is_sqlite3_Error (KeyError k) = False"

text \<open>What the run prints, in order.\<close>

datatype event =
    Error_executing_query nat string
  | Results nat "sqlval list frame"
  | No_results_found nat

text \<open>
  \<open>execute_query\<close>: the result, \<open>None\<close> after a caught error, or the exception that leaves
  the method; together with the output so far.
\<close>

definition execute_query ::
  "connection \<Rightarrow> nat \<Rightarrow> event list \<Rightarrow> (py_exception + sqlval list frame option) \<times> event list" where
  "execute_query conn query_num out =
     (case pd_read_sql_query conn query_num of
        Inr result \<Rightarrow> (Inr (Some result), out)
      | Inl e \<Rightarrow>
          if is_sqlite3_Error e
          then (Inr None, out @ [Error_executing_query query_num
                  (case e of Sqlite3_Error msg \<Rightarrow> msg | DatabaseError msg \<Rightarrow> msg | KeyError k \<Rightarrow> k)])
          else (Inl e, out))"

definition display_results :: "nat \<Rightarrow> sqlval list frame option \<Rightarrow> event list \<Rightarrow> event list" where
  "display_results problem_num result out =
     (case result of
        None \<Rightarrow> out @ [No_results_found problem_num]
      | Some df \<Rightarrow>
          if rows df \<noteq> [] then out @ [Results problem_num df]
          else out @ [No_results_found problem_num])"

text \<open>
  \<open>run_analysis\<close> runs the problems one after the other; an exception that leaves
  \<open>execute_query\<close> leaves \<open>run_analysis\<close> too, and the problems after it are not run.
\<close>

fun run_problems :: "connection \<Rightarrow> nat list \<Rightarrow> event list \<Rightarrow> py_exception option \<times> event list" where
  "run_problems conn [] out = (None, out)"
| "run_problems conn (n # ns) out =
     (case execute_query conn n out of
        (Inl e, out') \<Rightarrow> (Some e, out')
      | (Inr result, out') \<Rightarrow> run_problems conn ns (display_results n result out'))"

definition run_analysis :: "connection \<Rightarrow> py_exception option \<times> event list" where
  "run_analysis conn = run_problems conn [1, 2, 3, 4, 5, 6, 7, 8, 9, 10] []"

text \<open>
  The first table named by the statement of a problem that the database lacks: problems
  1, 3, 4, 5 and 8 read the crime table, 2, 7 and 9 the census table, 6 the schools table,
  and 10 the census table with a subquery on the crime table.
\<close>

definition missing_table :: "database \<Rightarrow> nat \<Rightarrow> string option" where
  "missing_table db n =
     (if n \<in> set [1, 3, 4, 5, 8] then
        (if CHICAGO_CRIME_DATA db = None then Some ''CHICAGO_CRIME_DATA'' else None)
      else if n \<in> set [2, 7, 9] then
        (if CENSUS_DATA db = None then Some ''CENSUS_DATA'' else None)
      else if n = 6 then
        (if CHICAGO_PUBLIC_SCHOOLS db = None then Some ''CHICAGO_PUBLIC_SCHOOLS'' else None)
      else
        (if CENSUS_DATA db = None then Some ''CENSUS_DATA''
         else if CHICAGO_CRIME_DATA db = None then Some ''CHICAGO_CRIME_DATA'' else None))"

text \<open>
  The rows of the statements of problems 1, 8 and 10 on the tables of the database; the rows
  of the other statements are left to \<open>other_rows\<close>.
\<close>

definition statement_rows :: "database \<Rightarrow> (nat \<Rightarrow> sqlval list frame) \<Rightarrow> nat \<Rightarrow> sqlval list frame" where
  "statement_rows db other_rows n =
     (case (CENSUS_DATA db, CHICAGO_CRIME_DATA db) of
        (census, Some crime) \<Rightarrow>
          if n = 1 then DataFrame [''TOTAL_CRIMES''] [[Integer (int (length crime))]]
          else if n = 8 then
            DataFrame [''COMMUNITY_AREA_NUMBER'', ''CRIME_COUNT'']
              (map (\<lambda>row. [fst row, Integer (int (snd row))]) (query8 crime))
          else if n = 10 then
            (case census of
               Some cs \<Rightarrow>
                 DataFrame [''COMMUNITY_AREA_NAME'']
                   (map (\<lambda>name. [case name of None \<Rightarrow> Null | Some s \<Rightarrow> Text s]) (query10 cs crime))
             | None \<Rightarrow> other_rows n)
          else other_rows n
      | (census, None) \<Rightarrow> other_rows n)"

definition sqlite_connection :: "database \<Rightarrow> (nat \<Rightarrow> sqlval list frame) \<Rightarrow> connection" where
  "sqlite_connection db other_rows n =
     (case missing_table db n of
        Some t \<Rightarrow> Execute_failed (''no such table: '' @ t)
      | None \<Rightarrow> Fetched (statement_rows db other_rows n))"

section \<open>Example data\<close>

definition example_crime :: "rat option \<Rightarrow> enriched_crime" where
  "example_crime inc =
     \<lparr>crime_id = Some 100, case_number = ''HK1'', primary_type = ''THEFT'',
      description = ''OVER $500'', crime_community_area_number = Some 5,
      crime_community_area_name = ''Hyde Park'', per_capita_income = inc,
      crime_poverty_rate = None, crime_hardship_index = None, crime_year = Some 2010\<rparr>"

definition census_oak_park :: census_row where
  "census_oak_park =
     \<lparr>census_COMMUNITY_AREA_NUMBER = Real 1, census_COMMUNITY_AREA_NAME = Some ''Oak Park'',
      census_HARDSHIP_INDEX = Some 80, census_PERCENT_HOUSEHOLDS_BELOW_POVERTY = Some 35,
      census_PER_CAPITA_INCOME = Some 9000\<rparr>"

definition crime_100 :: "sqlval \<Rightarrow> crime_row" where
  "crime_100 n =
     \<lparr>crime_ID = Some 100, crime_CASE_NUMBER = None, crime_PRIMARY_TYPE = None,
      crime_DESCRIPTION = None, crime_COMMUNITY_AREA_NUMBER = n, crime_YEAR = Some 2010\<rparr>"

definition school_of :: "int option \<Rightarrow> sqlval \<Rightarrow> rat option \<Rightarrow> school_row" where
  "school_of sid n score =
     \<lparr>school_School_ID = sid, school_COMMUNITY_AREA_NUMBER = n, school_SAFETY_SCORE = score\<rparr>"

definition oak_park_aggregate :: "rat option \<Rightarrow> nat \<Rightarrow> community_aggregate" where
  "oak_park_aggregate avg n =
     \<lparr>community_area_number = Some 1, community_area_name = Some ''Oak Park'',
      hardship_index = Some 80, poverty_rate = Some 35,
      avg_safety_score = avg, school_count = n\<rparr>"

definition census_of :: "sqlval \<Rightarrow> string option \<Rightarrow> census_row" where
  "census_of n name =
     \<lparr>census_COMMUNITY_AREA_NUMBER = n, census_COMMUNITY_AREA_NAME = name,
      census_HARDSHIP_INDEX = Some 80, census_PERCENT_HOUSEHOLDS_BELOW_POVERTY = Some 35,
      census_PER_CAPITA_INCOME = Some 9000\<rparr>"

definition aggregate_of :: "int \<Rightarrow> string \<Rightarrow> community_aggregate" where
  "aggregate_of n name =
     \<lparr>community_area_number = Some n, community_area_name = Some name,
      hardship_index = Some 80, poverty_rate = Some 35,
      avg_safety_score = None, school_count = 0\<rparr>"

definition census_mixed :: "census_row list" where
  "census_mixed =
     [census_of (Integer 2) (Some ''Uptown''),
      census_of Null (Some ''CHICAGO''),
      census_of (Real 1) (Some ''  ''),
      census_of (Integer 1) (Some ''Austin''),
      census_of (Integer 3) None]"

definition crime_of_type :: "string \<Rightarrow> rat option \<Rightarrow> enriched_crime" where
  "crime_of_type ty inc = (example_crime inc)\<lparr>primary_type := ty\<rparr>"

definition labelled :: "string \<Rightarrow> enriched_crime \<times> string" where
  "labelled ty = (crime_of_type ty (Some 9000), Low_Income_Areas)"

definition six_crimes :: "(enriched_crime \<times> string) list" where
  "six_crimes =
     [labelled ''THEFT'', labelled ''BATTERY'', labelled ''ASSAULT'',
      labelled ''BATTERY'', labelled ''THEFT'', labelled ''BATTERY'']"




text \<open>The database file after a download that failed: no table was written.\<close>

definition no_tables :: database where
  "no_tables = \<lparr>CENSUS_DATA = None, CHICAGO_PUBLIC_SCHOOLS = None, CHICAGO_CRIME_DATA = None\<rparr>"

text \<open>A database that has the crime and schools tables and lacks the census table.\<close>

definition no_census :: database where
  "no_census =
     \<lparr>CENSUS_DATA = None, CHICAGO_PUBLIC_SCHOOLS = Some [], CHICAGO_CRIME_DATA = Some []\<rparr>"

section \<open>Properties of the income segment\<close>

lemma segment_labels_distinct:
  "Low_Income_Areas \<noteq> High_Income_Areas"
  "Low_Income_Areas \<noteq> Unknown_Missing_Income"
  "High_Income_Areas \<noteq> Unknown_Missing_Income"
  by (simp_all add: Low_Income_Areas_def High_Income_Areas_def Unknown_Missing_Income_def)

lemma income_segment_None:
  "per_capita_income r = None \<Longrightarrow> income_segment t r = Unknown_Missing_Income"
  by (simp add: income_segment_def np_where_def isna_def)

lemma income_segment_Some:
  "per_capita_income r = Some v \<Longrightarrow>
     income_segment t r = (if v \<le> of_int t then Low_Income_Areas else High_Income_Areas)"
  by (simp add: income_segment_def np_where_def isna_def le_threshold_def)

text \<open>
  Claim C2. For every row of the enriched crime dataset and every integer threshold the
  segment is Unknown exactly when the income is missing; for a known income it is Low exactly
  when the income is at most the threshold and High exactly when it is above; and every row
  carries exactly one of the three labels.
\<close>

theorem income_segment_partition:
  "(income_segment t r = Unknown_Missing_Income \<longleftrightarrow> per_capita_income r = None)
   \<and> (\<forall>v. per_capita_income r = Some v \<longrightarrow>
          (income_segment t r = Low_Income_Areas \<longleftrightarrow> v \<le> of_int t)
        \<and> (income_segment t r = High_Income_Areas \<longleftrightarrow> \<not> v \<le> of_int t))
   \<and> income_segment t r \<in> {Low_Income_Areas, High_Income_Areas, Unknown_Missing_Income}
   \<and> map snd (working_df t rs) = map (income_segment t) rs"
proof (cases "per_capita_income r")
  case None
  then show ?thesis
    by (simp add: income_segment_None working_df_def comp_def)
next
  case (Some v)
  then show ?thesis
    using segment_labels_distinct
    by (auto simp add: income_segment_Some working_df_def comp_def)
qed

theorem income_segment_partition_witness:
  "per_capita_income (example_crime (Some 9000)) = Some 9000
   \<and> income_segment 10000 (example_crime (Some 9000)) = Low_Income_Areas
   \<and> income_segment 10000 (example_crime (Some 9000)) \<noteq> High_Income_Areas
   \<and> income_segment 10000 (example_crime (Some 9000)) \<noteq> Unknown_Missing_Income"
proof -
  have h: "per_capita_income (example_crime (Some 9000)) = Some 9000"
    by (simp add: example_crime_def)
  from income_segment_partition [of 10000 "example_crime (Some 9000)" "[]"] h
  show ?thesis using segment_labels_distinct by auto
qed

text \<open>
  Claim C9. With a threshold at or above every known income, every row with a known income
  is labelled Low; with a threshold strictly below every known income, every such row is
  labelled High.
\<close>

theorem income_segment_extreme_thresholds:
  "((\<forall>r \<in> set rs. \<forall>v. per_capita_income r = Some v \<longrightarrow> v \<le> of_int hi) \<longrightarrow>
     (\<forall>(r, s) \<in> set (working_df hi rs). per_capita_income r \<noteq> None \<longrightarrow> s = Low_Income_Areas))
   \<and> ((\<forall>r \<in> set rs. \<forall>v. per_capita_income r = Some v \<longrightarrow> of_int lo < v) \<longrightarrow>
     (\<forall>(r, s) \<in> set (working_df lo rs). per_capita_income r \<noteq> None \<longrightarrow> s = High_Income_Areas))"
  by (auto simp add: working_df_def income_segment_Some)

theorem income_segment_extreme_thresholds_witness:
  "working_df 20000 [example_crime (Some 9000), example_crime None, example_crime (Some 20000)]
     = [(example_crime (Some 9000), Low_Income_Areas),
        (example_crime None, Unknown_Missing_Income),
        (example_crime (Some 20000), Low_Income_Areas)]
   \<and> working_df 8999 [example_crime (Some 9000), example_crime None, example_crime (Some 20000)]
     = [(example_crime (Some 9000), High_Income_Areas),
        (example_crime None, Unknown_Missing_Income),
        (example_crime (Some 20000), High_Income_Areas)]
   \<and> income_segment 20000 (example_crime (Some 20000)) = Low_Income_Areas
   \<and> income_segment 8999 (example_crime (Some 9000)) = High_Income_Areas"
proof -
  let ?rs = "[example_crime (Some 9000), example_crime None, example_crime (Some 20000)]"
  have hi: "\<forall>r \<in> set ?rs. \<forall>v. per_capita_income r = Some v \<longrightarrow> v \<le> of_int 20000"
    by (simp add: example_crime_def)
  have lo: "\<forall>r \<in> set ?rs. \<forall>v. per_capita_income r = Some v \<longrightarrow> of_int 8999 < v"
    by (simp add: example_crime_def)
  have a: "\<forall>(r, s) \<in> set (working_df 20000 ?rs). per_capita_income r \<noteq> None \<longrightarrow> s = Low_Income_Areas"
    using income_segment_extreme_thresholds [of ?rs 20000 8999] hi by blast
  have b: "\<forall>(r, s) \<in> set (working_df 8999 ?rs). per_capita_income r \<noteq> None \<longrightarrow> s = High_Income_Areas"
    using income_segment_extreme_thresholds [of ?rs 20000 8999] lo by blast
  have c: "working_df 20000 ?rs
     = [(example_crime (Some 9000), Low_Income_Areas),
        (example_crime None, Unknown_Missing_Income),
        (example_crime (Some 20000), Low_Income_Areas)]"
    by (simp add: working_df_def income_segment_def np_where_def isna_def le_threshold_def
        example_crime_def)
  have d: "working_df 8999 ?rs
     = [(example_crime (Some 9000), High_Income_Areas),
        (example_crime None, Unknown_Missing_Income),
        (example_crime (Some 20000), High_Income_Areas)]"
    by (simp add: working_df_def income_segment_def np_where_def isna_def le_threshold_def
        example_crime_def)
  have m1: "(example_crime (Some 20000), income_segment 20000 (example_crime (Some 20000)))
              \<in> set (working_df 20000 ?rs)"
    by (simp add: working_df_def)
  have m2: "(example_crime (Some 9000), income_segment 8999 (example_crime (Some 9000)))
              \<in> set (working_df 8999 ?rs)"
    by (simp add: working_df_def)
  have k1: "per_capita_income (example_crime (Some 20000)) \<noteq> None"
    by (simp add: example_crime_def)
  have k2: "per_capita_income (example_crime (Some 9000)) \<noteq> None"
    by (simp add: example_crime_def)
  from a m1 k1 have e1: "income_segment 20000 (example_crime (Some 20000)) = Low_Income_Areas"
    by blast
  from b m2 k2 have e2: "income_segment 8999 (example_crime (Some 9000)) = High_Income_Areas"
    by blast
  from c d e1 e2 show ?thesis by (intro conjI)
qed

section \<open>Properties of the enriched crime dataset\<close>

lemma left_join_append:
  "left_join cond (xs @ ys) rs = left_join cond xs rs @ left_join cond ys rs"
  by (simp add: left_join_def)

lemma left_join_single_unmatched:
  "\<forall>r \<in> set rs. \<not> cond l r \<Longrightarrow> left_join cond [l] rs = [(l, None)]"
proof -
  assume "\<forall>r \<in> set rs. \<not> cond l r"
  then have "filter (cond l) rs = []" by (simp add: filter_empty_conv)
  then show ?thesis by (simp add: left_join_def)
qed

lemma left_join_single_nonempty: "left_join cond [l] rs \<noteq> []"
  by (simp add: left_join_def split: list.splits)

lemma left_join_single_fst: "p \<in> set (left_join cond [l] rs) \<Longrightarrow> fst p = l"
  by (auto simp add: left_join_def split: list.splits)

lemma crime_sql_append:
  "crime_sql census (xs @ ys) = crime_sql census xs @ crime_sql census ys"
  by (simp add: crime_sql_def left_join_append)

lemma crime_sql_null: "crime_COMMUNITY_AREA_NUMBER cr = Null \<Longrightarrow> crime_sql census [cr] = []"
  by (auto simp add: crime_sql_def crime_where_def filter_empty_conv dest: left_join_single_fst)

lemma crime_filter_keep:
  "crime_COMMUNITY_AREA_NUMBER cr \<noteq> Null \<Longrightarrow>
     filter (\<lambda>(cr, c). crime_where cr) (left_join crime_on [cr] census) = left_join crime_on [cr] census"
  by (rule filter_True) (auto simp add: crime_where_def dest: left_join_single_fst)

lemma crime_sql_retained:
  "crime_COMMUNITY_AREA_NUMBER cr \<noteq> Null \<Longrightarrow> crime_sql census [cr] \<noteq> []"
  by (simp add: crime_sql_def crime_filter_keep left_join_single_nonempty)

lemma crime_sql_fields:
  assumes "crime_COMMUNITY_AREA_NUMBER cr \<noteq> Null" and "e \<in> set (crime_sql census [cr])"
  shows "crime_id e = crime_ID cr
       \<and> case_number e = COALESCE (crime_CASE_NUMBER cr) ''N/A''
       \<and> primary_type e = COALESCE (crime_PRIMARY_TYPE cr) ''UNKNOWN''
       \<and> description e = COALESCE (crime_DESCRIPTION cr) ''No description''"
proof -
  from assms obtain p where p: "p \<in> set (left_join crime_on [cr] census)" and e: "e = crime_select p"
    by (auto simp add: crime_sql_def)
  from p have "fst p = cr" by (rule left_join_single_fst)
  then obtain c where "p = (cr, c)" by (cases p) simp
  with e show ?thesis by (simp add: crime_select_def)
qed

lemma crime_sql_unmatched:
  assumes "crime_COMMUNITY_AREA_NUMBER cr \<noteq> Null" and "\<forall>c \<in> set census. \<not> crime_on cr c"
  shows "crime_sql census [cr] = [crime_select (cr, None)]"
  using assms by (simp add: crime_sql_def left_join_single_unmatched crime_where_def)

lemma load_crime_dataset_present:
  "load_crime_dataset \<lparr>CENSUS_DATA = Some census, CHICAGO_PUBLIC_SCHOOLS = schools,
                        CHICAGO_CRIME_DATA = Some crime\<rparr>
     = Inr (DataFrame crime_columns (crime_sql census crime))"
  by (simp add: load_crime_dataset_def crime_read_sql_query_def run_query_def
      crime_numeric_cols_def crime_columns_def)

text \<open>
  Claim C4. With both tables present, \<open>load_crime_dataset\<close> returns the rows of its
  statement, and the statement treats every crime record on its own: a record whose raw
  community area number is NULL yields no row; a record with any other raw number yields at
  least one row, each carrying its id and the case number, primary type and description with
  \<open>N/A\<close>, \<open>UNKNOWN\<close> and \<open>No description\<close> in place of a missing value; and a record
  that matches no census row yields exactly one row, named \<open>Unknown\<close>, whose income, poverty
  rate and hardship index are missing.
\<close>

theorem load_crime_dataset_hard_filter_soft_join:
  "load_crime_dataset \<lparr>CENSUS_DATA = Some census, CHICAGO_PUBLIC_SCHOOLS = schools,
                        CHICAGO_CRIME_DATA = Some crime\<rparr>
     = Inr (DataFrame crime_columns (crime_sql census crime))
   \<and> crime_sql census (before @ cr # after)
       = crime_sql census before @ crime_sql census [cr] @ crime_sql census after
   \<and> (crime_COMMUNITY_AREA_NUMBER cr = Null \<longrightarrow> crime_sql census [cr] = [])
   \<and> (crime_COMMUNITY_AREA_NUMBER cr \<noteq> Null \<longrightarrow>
        crime_sql census [cr] \<noteq> []
        \<and> (\<forall>e \<in> set (crime_sql census [cr]).
              crime_id e = crime_ID cr
            \<and> case_number e = COALESCE (crime_CASE_NUMBER cr) ''N/A''
            \<and> primary_type e = COALESCE (crime_PRIMARY_TYPE cr) ''UNKNOWN''
            \<and> description e = COALESCE (crime_DESCRIPTION cr) ''No description''))
   \<and> (crime_COMMUNITY_AREA_NUMBER cr \<noteq> Null \<and> (\<forall>c \<in> set census. \<not> crime_on cr c) \<longrightarrow>
        crime_sql census [cr] =
          [\<lparr>crime_id = crime_ID cr,
            case_number = COALESCE (crime_CASE_NUMBER cr) ''N/A'',
            primary_type = COALESCE (crime_PRIMARY_TYPE cr) ''UNKNOWN'',
            description = COALESCE (crime_DESCRIPTION cr) ''No description'',
            crime_community_area_number = cast_integer (crime_COMMUNITY_AREA_NUMBER cr),
            crime_community_area_name = ''Unknown'',
            per_capita_income = None,
            crime_poverty_rate = None,
            crime_hardship_index = None,
            crime_year = crime_YEAR cr\<rparr>])"
proof -
  have split: "crime_sql census (before @ cr # after)
       = crime_sql census before @ crime_sql census [cr] @ crime_sql census after"
    using crime_sql_append [of census before "[cr] @ after"] crime_sql_append [of census "[cr]" after]
    by simp
  have sentinel: "crime_select (cr, None) =
          \<lparr>crime_id = crime_ID cr,
            case_number = COALESCE (crime_CASE_NUMBER cr) ''N/A'',
            primary_type = COALESCE (crime_PRIMARY_TYPE cr) ''UNKNOWN'',
            description = COALESCE (crime_DESCRIPTION cr) ''No description'',
            crime_community_area_number = cast_integer (crime_COMMUNITY_AREA_NUMBER cr),
            crime_community_area_name = ''Unknown'',
            per_capita_income = None,
            crime_poverty_rate = None,
            crime_hardship_index = None,
            crime_year = crime_YEAR cr\<rparr>"
    by (simp add: crime_select_def)
  show ?thesis
    using load_crime_dataset_present split crime_sql_null crime_sql_retained crime_sql_fields
      crime_sql_unmatched sentinel
    by metis
qed

theorem load_crime_dataset_hard_filter_soft_join_witness:
  "crime_COMMUNITY_AREA_NUMBER (crime_100 (Integer 5)) \<noteq> Null
   \<and> \<not> crime_on (crime_100 (Integer 5)) census_oak_park
   \<and> crime_COMMUNITY_AREA_NUMBER (crime_100 Null) = Null
   \<and> crime_sql [census_oak_park] [crime_100 Null] = []
   \<and> crime_sql [census_oak_park] [crime_100 (Integer 5)] =
       [\<lparr>crime_id = Some 100, case_number = ''N/A'', primary_type = ''UNKNOWN'',
         description = ''No description'', crime_community_area_number = Some 5,
         crime_community_area_name = ''Unknown'', per_capita_income = None,
         crime_poverty_rate = None, crime_hardship_index = None, crime_year = Some 2010\<rparr>]
   \<and> crime_sql [census_oak_park] [crime_100 (Integer 1)] =
       [\<lparr>crime_id = Some 100, case_number = ''N/A'', primary_type = ''UNKNOWN'',
         description = ''No description'', crime_community_area_number = Some 1,
         crime_community_area_name = ''Oak Park'', per_capita_income = Some 9000,
         crime_poverty_rate = Some 35, crime_hardship_index = Some 80, crime_year = Some 2010\<rparr>]"
proof -
  have h1: "crime_COMMUNITY_AREA_NUMBER (crime_100 (Integer 5)) \<noteq> Null"
    by (simp add: crime_100_def)
  have h2: "\<forall>c \<in> set [census_oak_park]. \<not> crime_on (crime_100 (Integer 5)) c"
    by (simp add: crime_100_def census_oak_park_def crime_on_def real_to_integer_def
        clamp_int64_def SMALLEST_INT64_def LARGEST_INT64_def)
  have h3: "crime_COMMUNITY_AREA_NUMBER (crime_100 Null) = Null"
    by (simp add: crime_100_def)
  have a: "crime_sql [census_oak_park] [crime_100 Null] = []"
    using load_crime_dataset_hard_filter_soft_join [of "[census_oak_park]" None "[]" "[]" "crime_100 Null" "[]"] h3
    by blast
  have b: "crime_sql [census_oak_park] [crime_100 (Integer 5)] =
       [\<lparr>crime_id = Some 100, case_number = ''N/A'', primary_type = ''UNKNOWN'',
         description = ''No description'', crime_community_area_number = Some 5,
         crime_community_area_name = ''Unknown'', per_capita_income = None,
         crime_poverty_rate = None, crime_hardship_index = None, crime_year = Some 2010\<rparr>]"
    using load_crime_dataset_hard_filter_soft_join [of "[census_oak_park]" None "[]" "[]" "crime_100 (Integer 5)" "[]"] h1 h2
    by (simp add: crime_100_def)
  have c: "crime_sql [census_oak_park] [crime_100 (Integer 1)] =
       [\<lparr>crime_id = Some 100, case_number = ''N/A'', primary_type = ''UNKNOWN'',
         description = ''No description'', crime_community_area_number = Some 1,
         crime_community_area_name = ''Oak Park'', per_capita_income = Some 9000,
         crime_poverty_rate = Some 35, crime_hardship_index = Some 80, crime_year = Some 2010\<rparr>]"
    by (simp add: crime_sql_def left_join_def crime_on_def crime_where_def crime_select_def
        crime_100_def census_oak_park_def real_to_integer_def
        clamp_int64_def SMALLEST_INT64_def LARGEST_INT64_def)
  from h2 have h2': "\<not> crime_on (crime_100 (Integer 5)) census_oak_park" by simp
  from h1 h2' h3 a b c show ?thesis by (intro conjI)
qed

section \<open>Properties of the community aggregate\<close>

lemma filter_left_join:
  "filter (\<lambda>(l, r). P l) (left_join cond ls rs) = left_join cond (filter P ls) rs"
proof (induction ls)
  case Nil
  show ?case by (simp add: left_join_def)
next
  case (Cons l ls)
  have one: "filter (\<lambda>(l, r). P l) (left_join cond [l] rs)
               = (if P l then left_join cond [l] rs else [])"
    by (auto simp add: left_join_def filter_empty_conv split: list.splits)
  have "left_join cond (l # ls) rs = left_join cond [l] rs @ left_join cond ls rs"
    using left_join_append [of cond "[l]" ls rs] by simp
  with Cons one show ?case
    using left_join_append [of cond "[l]" "filter P ls" rs] by simp
qed

lemma fst_set_left_join: "fst ` set (left_join cond ls rs) = set ls"
proof (induction ls)
  case Nil
  show ?case by (simp add: left_join_def)
next
  case (Cons l ls)
  have one: "fst ` set (left_join cond [l] rs) = {l}"
    using left_join_single_nonempty [of cond l rs] left_join_single_fst [of _ cond l rs]
    by (cases "left_join cond [l] rs") force+
  have "left_join cond (l # ls) rs = left_join cond [l] rs @ left_join cond ls rs"
    using left_join_append [of cond "[l]" ls rs] by simp
  with Cons one show ?case by (simp add: image_Un)
qed

lemma socio_joined_survivors:
  "socio_joined census schools = left_join socio_on (survivors census) schools"
  by (simp add: socio_joined_def survivors_def filter_left_join)

lemma socio_group_rows:
  "filter (\<lambda>(c, s). socio_key c = k) (socio_joined census schools)
     = left_join socio_on (filter (\<lambda>c. socio_key c = k) (survivors census)) schools"
  by (simp add: socio_joined_survivors filter_left_join)

lemma set_socio_groups:
  "set (socio_groups (socio_joined census schools)) = socio_key ` set (survivors census)"
proof -
  have "set (socio_groups (socio_joined census schools))
          = socio_key ` fst ` set (left_join socio_on (survivors census) schools)"
    by (simp add: socio_groups_def socio_joined_survivors image_comp)
  then show ?thesis by (simp add: fst_set_left_join)
qed

lemma distinct_socio_groups: "distinct (socio_groups joined)"
  by (simp add: socio_groups_def)

lemma out_key_socio_select: "out_key (socio_select k grp) = k"
  by (cases k) (simp add: out_key_def socio_select_def)



lemma socio_sql_rows:
  "set (socio_sql census schools)
     = (\<lambda>k. socio_select k (left_join socio_on (filter (\<lambda>c. socio_key c = k) (survivors census)) schools))
         ` socio_key ` set (survivors census)"
  by (simp add: socio_sql_def Let_def socio_group_rows set_socio_groups)

lemmas eval_socio =
  socio_sql_def Let_def socio_joined_def left_join_def socio_on_def socio_where_def TRIM_def
  socio_groups_def socio_key_def socio_select_def AVG_def COUNT_def safety_score_of_def
  school_id_of_def real_to_integer_def text_to_integer_def clamp_int64_def SMALLEST_INT64_def
  LARGEST_INT64_def sqlite3Isspace_def is_digit_def census_oak_park_def school_of_def
  oak_park_aggregate_def





lemma socio_sql_row_cases:
  assumes "row \<in> set (socio_sql census schools)"
  shows "out_key row \<in> socio_key ` set (survivors census)
       \<and> row = socio_select (out_key row)
           (left_join socio_on (filter (\<lambda>c. socio_key c = out_key row) (survivors census)) schools)"
  using assms by (auto simp add: socio_sql_rows out_key_socio_select)




lemma survivors_idem: "survivors (survivors census) = survivors census"
  by (simp add: survivors_def)

lemma socio_sql_survivors: "socio_sql census schools = socio_sql (survivors census) schools"
  by (simp add: socio_sql_def socio_joined_survivors survivors_idem)

lemma socio_sql_out_keys:
  "distinct (map out_key (socio_sql census schools))
   \<and> set (map out_key (socio_sql census schools)) = socio_key ` set (survivors census)"
proof -
  let ?joined = "socio_joined census schools"
  let ?F = "\<lambda>k. socio_select k (filter (\<lambda>(c, s). socio_key c = k) ?joined)"
  have keys: "map out_key (map ?F (socio_groups ?joined)) = socio_groups ?joined"
    by (simp add: comp_def out_key_socio_select)
  have inj: "inj_on out_key (set (map ?F (socio_groups ?joined)))"
    by (rule inj_onI) (auto simp add: out_key_socio_select)
  have dF: "distinct (map ?F (socio_groups ?joined))"
  proof -
    have "distinct (map out_key (map ?F (socio_groups ?joined)))"
      unfolding keys by (rule distinct_socio_groups)
    then show ?thesis by (simp only: distinct_map [of out_key])
  qed
  have sql: "socio_sql census schools = sort_key community_area_number (map ?F (socio_groups ?joined))"
    by (simp add: socio_sql_def Let_def)
  have d: "distinct (map out_key (socio_sql census schools))"
    unfolding sql distinct_map using dF inj by simp
  have "set (map out_key (socio_sql census schools)) = set (map out_key (map ?F (socio_groups ?joined)))"
    unfolding sql by (simp add: image_image)
  also have "\<dots> = socio_key ` set (survivors census)"
    unfolding keys by (rule set_socio_groups)
  finally show ?thesis using d by simp
qed

lemma community_area_number_out_key: "community_area_number row = fst (out_key row)"
  by (simp add: out_key_def)

lemma TRIM_empty_iff: "TRIM s = [] \<longleftrightarrow> (\<forall>ch \<in> set s. ch = CHR '' '')"
proof -
  let ?P = "\<lambda>c. c = CHR '' ''"
  have eq: "TRIM s = [] \<longleftrightarrow> (\<forall>x \<in> set (dropWhile ?P s). ?P x)"
    by (simp add: TRIM_def dropWhile_eq_Nil_conv)
  have nil: "dropWhile ?P s = [] \<longleftrightarrow> (\<forall>ch \<in> set s. ?P ch)"
    by (rule dropWhile_eq_Nil_conv)
  have "(\<forall>x \<in> set (dropWhile ?P s). ?P x) \<longleftrightarrow> dropWhile ?P s = []"
  proof
    assume a: "\<forall>x \<in> set (dropWhile ?P s). ?P x"
    show "dropWhile ?P s = []"
    proof (rule ccontr)
      assume ne: "dropWhile ?P s \<noteq> []"
      then have "\<not> ?P (hd (dropWhile ?P s))" by (rule hd_dropWhile)
      moreover from ne have "hd (dropWhile ?P s) \<in> set (dropWhile ?P s)"
        by (rule hd_in_set)
      ultimately show False using a by blast
    qed
  next
    assume e: "dropWhile ?P s = []"
    show "\<forall>x \<in> set (dropWhile ?P s). ?P x"
      unfolding e by simp
  qed
  with eq nil show ?thesis by blast
qed

lemma socio_where_iff:
  "socio_where c \<longleftrightarrow>
     census_COMMUNITY_AREA_NUMBER c \<noteq> Null
     \<and> (\<exists>name. census_COMMUNITY_AREA_NAME c = Some name \<and> (\<exists>ch \<in> set name. ch \<noteq> CHR '' ''))"
  by (cases "census_COMMUNITY_AREA_NAME c") (auto simp add: socio_where_def TRIM_empty_iff)

text \<open>
  Claim C5, as the statement computes it. The rows of the community aggregate correspond
  one to one to the distinct grouping tuples (coerced number, name, hardship, poverty) of
  the census rows that pass the filter. When no two such census rows share a coerced number
  while differing in the rest of the tuple, the rows correspond one to one to the distinct
  coerced numbers: no number occurs in two rows and every number of a surviving census row
  occurs.
\<close>

theorem community_aggregate_one_row_per_group:
  "distinct (map out_key (socio_sql census schools))
   \<and> set (map out_key (socio_sql census schools)) = socio_key ` set (survivors census)
   \<and> ((\<forall>c1 \<in> set (survivors census). \<forall>c2 \<in> set (survivors census).
          cast_integer (census_COMMUNITY_AREA_NUMBER c1) = cast_integer (census_COMMUNITY_AREA_NUMBER c2)
          \<longrightarrow> socio_key c1 = socio_key c2)
        \<longrightarrow> distinct (map community_area_number (socio_sql census schools))
          \<and> set (map community_area_number (socio_sql census schools))
              = (\<lambda>c. cast_integer (census_COMMUNITY_AREA_NUMBER c)) ` set (survivors census))"
proof -
  let ?out = "socio_sql census schools"
  from socio_sql_out_keys [of census schools]
  have d: "distinct (map out_key ?out)"
    and s: "set (map out_key ?out) = socio_key ` set (survivors census)"
    by simp_all
  have num: "map community_area_number ?out = map fst (map out_key ?out)"
    by (simp add: community_area_number_out_key)
  have fst_key: "fst (socio_key c) = cast_integer (census_COMMUNITY_AREA_NUMBER c)" for c
    by (simp add: socio_key_def)
  have nums: "set (map community_area_number ?out)
                = (\<lambda>c. cast_integer (census_COMMUNITY_AREA_NUMBER c)) ` set (survivors census)"
  proof -
    have "set (map community_area_number ?out) = fst ` set (map out_key ?out)"
      unfolding num by (simp add: image_image)
    also have "\<dots> = fst ` socio_key ` set (survivors census)"
      unfolding s ..
    also have "\<dots> = (\<lambda>c. cast_integer (census_COMMUNITY_AREA_NUMBER c)) ` set (survivors census)"
      by (simp add: image_image fst_key)
    finally show ?thesis .
  qed
  have dn: "distinct (map community_area_number ?out)"
    if h: "\<forall>c1 \<in> set (survivors census). \<forall>c2 \<in> set (survivors census).
          cast_integer (census_COMMUNITY_AREA_NUMBER c1) = cast_integer (census_COMMUNITY_AREA_NUMBER c2)
          \<longrightarrow> socio_key c1 = socio_key c2"
  proof -
    have "inj_on fst (socio_key ` set (survivors census))"
    proof (rule inj_onI)
      fix x y
      assume x: "x \<in> socio_key ` set (survivors census)"
        and y: "y \<in> socio_key ` set (survivors census)"
        and e: "fst x = fst y"
      from x obtain c1 where c1: "c1 \<in> set (survivors census)" "x = socio_key c1" by blast
      from y obtain c2 where c2: "c2 \<in> set (survivors census)" "y = socio_key c2" by blast
      from e c1 c2 have "cast_integer (census_COMMUNITY_AREA_NUMBER c1)
                           = cast_integer (census_COMMUNITY_AREA_NUMBER c2)"
        by (simp add: fst_key)
      with h c1 c2 show "x = y" by blast
    qed
    then have "inj_on fst (set (map out_key ?out))"
      unfolding s .
    with d have "distinct (map fst (map out_key ?out))"
      by (simp only: distinct_map [of fst] simp_thms)
    then show ?thesis unfolding num .
  qed
  from d s nums dn show ?thesis by blast
qed

theorem community_aggregate_one_row_per_group_witness:
  "map (\<lambda>c. cast_integer (census_COMMUNITY_AREA_NUMBER c))
       (survivors [census_of (Integer 1) (Some ''Austin''), census_of (Integer 2) (Some ''Austin'')])
     = [Some 1, Some 2]
   \<and> distinct (map community_area_number
        (socio_sql [census_of (Integer 1) (Some ''Austin''), census_of (Integer 2) (Some ''Austin'')] []))
   \<and> set (map community_area_number
        (socio_sql [census_of (Integer 1) (Some ''Austin''), census_of (Integer 2) (Some ''Austin'')] []))
       = {Some 1, Some 2}"
proof -
  let ?census = "[census_of (Integer 1) (Some ''Austin''), census_of (Integer 2) (Some ''Austin'')]"
  have sv: "survivors ?census = ?census"
    by (simp add: survivors_def socio_where_def TRIM_def census_of_def)
  have h: "\<forall>c1 \<in> set (survivors ?census). \<forall>c2 \<in> set (survivors ?census).
      cast_integer (census_COMMUNITY_AREA_NUMBER c1) = cast_integer (census_COMMUNITY_AREA_NUMBER c2)
      \<longrightarrow> socio_key c1 = socio_key c2"
    unfolding sv by (simp add: census_of_def)
  have img: "(\<lambda>c. cast_integer (census_COMMUNITY_AREA_NUMBER c)) ` set (survivors ?census) = {Some 1, Some 2}"
    unfolding sv by (simp add: census_of_def)
  note c = community_aggregate_one_row_per_group [of ?census "[]", THEN conjunct2, THEN conjunct2,
      THEN mp, OF h]
  from c have c1: "distinct (map community_area_number (socio_sql ?census []))" ..
  from c have c2: "set (map community_area_number (socio_sql ?census []))
      = (\<lambda>c. cast_integer (census_COMMUNITY_AREA_NUMBER c)) ` set (survivors ?census)" ..
  have ids: "map (\<lambda>c. cast_integer (census_COMMUNITY_AREA_NUMBER c)) (survivors ?census)
               = [Some 1, Some 2]"
    unfolding sv by (simp add: census_of_def)
  from ids c1 c2 [unfolded img] show ?thesis by (intro conjI)
qed

text \<open>
  Two census rows that carry the same number and different names give two rows of the
  aggregate with that number, so a number can occur in more than one row.
\<close>

theorem community_aggregate_duplicate_number_counterexample:
  "socio_sql [census_of (Integer 1) (Some ''Austin''), census_of (Integer 1) (Some ''Uptown'')] []
     = [aggregate_of 1 ''Austin'', aggregate_of 1 ''Uptown'']
   \<and> \<not> distinct (map community_area_number
         (socio_sql [census_of (Integer 1) (Some ''Austin''), census_of (Integer 1) (Some ''Uptown'')] []))"
proof -
  have "socio_sql [census_of (Integer 1) (Some ''Austin''), census_of (Integer 1) (Some ''Uptown'')] []
     = [aggregate_of 1 ''Austin'', aggregate_of 1 ''Uptown'']"
    by (simp add: eval_socio census_of_def aggregate_of_def less_eq_prod_def less_prod_def
        less_eq_option_def less_option_def)
  then show ?thesis by (simp add: aggregate_of_def)
qed

lemma socio_sql_numbers_not_null:
  assumes "row \<in> set (socio_sql census schools)"
  shows "\<exists>n. community_area_number row = Some n"
proof -
  from socio_sql_row_cases [OF assms] obtain c where c: "c \<in> set (survivors census)"
    and k: "out_key row = socio_key c" by blast
  from c have "census_COMMUNITY_AREA_NUMBER c \<noteq> Null"
    by (simp add: survivors_def socio_where_def)
  then obtain n where "cast_integer (census_COMMUNITY_AREA_NUMBER c) = Some n"
    by (cases "census_COMMUNITY_AREA_NUMBER c") simp_all
  with k show ?thesis
    by (simp add: community_area_number_out_key socio_key_def)
qed

lemma sorted_socio_sql: "sorted (map community_area_number (socio_sql census schools))"
  by (simp add: socio_sql_def Let_def)

text \<open>
  Claim C7, as the statement computes it. The census rows whose community area number is
  NULL and those whose name is NULL, empty or made of spaces only are removed before
  grouping: the result is the one computed from the remaining rows alone, every remaining
  row is represented by the row of its group, every row of the result has a number, and
  the rows are in ascending order of the integer-coerced number.
\<close>

theorem community_aggregate_filter_and_order:
  "socio_sql census schools = socio_sql (filter socio_where census) schools
   \<and> (socio_where c \<longleftrightarrow>
        census_COMMUNITY_AREA_NUMBER c \<noteq> Null
        \<and> (\<exists>name. census_COMMUNITY_AREA_NAME c = Some name \<and> (\<exists>ch \<in> set name. ch \<noteq> CHR '' '')))
   \<and> (c \<in> set census \<and> socio_where c \<longrightarrow>
        socio_key c \<in> set (map out_key (socio_sql census schools)))
   \<and> (\<forall>row \<in> set (socio_sql census schools). \<exists>n. community_area_number row = Some n)
   \<and> sorted (map community_area_number (socio_sql census schools))"
proof -
  have a: "socio_sql census schools = socio_sql (filter socio_where census) schools"
    using socio_sql_survivors [of census schools] by (simp add: survivors_def)
  have b: "socio_key c \<in> set (map out_key (socio_sql census schools))"
    if "c \<in> set census \<and> socio_where c"
  proof -
    from that have "c \<in> set (survivors census)" by (simp add: survivors_def)
    then have "socio_key c \<in> socio_key ` set (survivors census)" by (rule imageI)
    with socio_sql_out_keys [of census schools] show ?thesis by simp
  qed
  from a b socio_where_iff [of c] socio_sql_numbers_not_null [of _ census schools]
    sorted_socio_sql [of census schools]
  show ?thesis by blast
qed

theorem community_aggregate_filter_and_order_witness:
  "census_of (Integer 1) (Some ''Austin'') \<in> set census_mixed
   \<and> socio_where (census_of (Integer 1) (Some ''Austin''))
   \<and> socio_key (census_of (Integer 1) (Some ''Austin''))
        \<in> set (map out_key (socio_sql census_mixed []))
   \<and> socio_sql census_mixed [] = [aggregate_of 1 ''Austin'', aggregate_of 2 ''Uptown'']
   \<and> (\<exists>n. community_area_number (aggregate_of 1 ''Austin'') = Some n)
   \<and> sorted (map community_area_number (socio_sql census_mixed []))"
proof -
  let ?c = "census_of (Integer 1) (Some ''Austin'')"
  have m: "?c \<in> set census_mixed"
    by (simp add: census_mixed_def)
  have w: "socio_where ?c"
    by (simp add: socio_where_def TRIM_def census_of_def)
  have f: "filter socio_where census_mixed = [census_of (Integer 2) (Some ''Uptown''), ?c]"
    by (simp add: census_mixed_def socio_where_def TRIM_def census_of_def)
  have e: "socio_sql [census_of (Integer 2) (Some ''Uptown''), ?c] []
             = [aggregate_of 1 ''Austin'', aggregate_of 2 ''Uptown'']"
    by (simp add: eval_socio census_of_def aggregate_of_def less_eq_prod_def less_prod_def
        less_eq_option_def less_option_def)
  note t = community_aggregate_filter_and_order [of census_mixed "[]" ?c]
  from t have t1: "socio_sql census_mixed [] = socio_sql (filter socio_where census_mixed) []" by (rule conjunct1)
  from t m w have t3: "socio_key ?c \<in> set (map out_key (socio_sql census_mixed []))" by blast
  from t have t4: "\<forall>row \<in> set (socio_sql census_mixed []). \<exists>n. community_area_number row = Some n" by blast
  from t have t5: "sorted (map community_area_number (socio_sql census_mixed []))" by blast
  from t1 have t1': "socio_sql census_mixed [] = [aggregate_of 1 ''Austin'', aggregate_of 2 ''Uptown'']"
    unfolding f e .
  from t4 t1' have t4': "\<exists>n. community_area_number (aggregate_of 1 ''Austin'') = Some n"
    by simp
  from m w t3 t1' t4' t5 show ?thesis by (intro conjI)
qed

text \<open>
  A census row whose number is a text of blanks is not NULL, so it passes the filter and
  appears in the result with the number 0.
\<close>

theorem community_aggregate_blank_number_counterexample:
  "TRIM ''  '' = []
   \<and> socio_sql [census_of (Text ''  '') (Some ''Loop'')] [] = [aggregate_of 0 ''Loop'']"
  by (simp add: eval_socio census_of_def aggregate_of_def)

section \<open>Empty and absent tables\<close>

lemma socio_sql_no_census: "socio_sql [] schools = []"
  by (simp add: socio_sql_def socio_joined_def left_join_def socio_groups_def)

lemma crime_sql_no_crime: "crime_sql census [] = []"
  by (simp add: crime_sql_def left_join_def)

lemma load_socioeducation_dataset_present:
  "load_socioeducation_dataset
       \<lparr>CENSUS_DATA = Some census, CHICAGO_PUBLIC_SCHOOLS = Some schools, CHICAGO_CRIME_DATA = crime\<rparr>
     = Inr (DataFrame socio_columns (socio_sql census schools))"
  by (simp add: load_socioeducation_dataset_def socio_read_sql_query_def run_query_def
      socio_numeric_cols_def socio_columns_def)

text \<open>
  When a table that the statement names is absent, \<open>run_query\<close> hands back
  \<open>pd.DataFrame()\<close>, and the conversion loop that follows raises \<open>KeyError\<close> at its first
  column.
\<close>

lemma load_socioeducation_dataset_absent_table:
  "CENSUS_DATA db = None \<or> CHICAGO_PUBLIC_SCHOOLS db = None \<Longrightarrow>
     load_socioeducation_dataset db = Inl (KeyError ''community_area_number'')"
  by (auto simp add: load_socioeducation_dataset_def socio_read_sql_query_def run_query_def
      socio_numeric_cols_def empty_DataFrame_def split: option.splits)

lemma load_crime_dataset_absent_table:
  "CENSUS_DATA db = None \<or> CHICAGO_CRIME_DATA db = None \<Longrightarrow>
     load_crime_dataset db = Inl (KeyError ''community_area_number'')"
  by (auto simp add: load_crime_dataset_def crime_read_sql_query_def run_query_def
      crime_numeric_cols_def empty_DataFrame_def split: option.splits)

text \<open>
  Claim C8, as the code behaves. When the table that drives the join is present and empty
  (\<open>CENSUS_DATA\<close> for the community aggregate, \<open>CHICAGO_CRIME_DATA\<close> for the enriched crime
  dataset) and the joined table is present, the call returns a frame without rows and
  raises nothing.
\<close>

theorem view_builder_empty_driving_table:
  "load_socioeducation_dataset
       \<lparr>CENSUS_DATA = Some [], CHICAGO_PUBLIC_SCHOOLS = Some schools, CHICAGO_CRIME_DATA = crime\<rparr>
     = Inr (DataFrame socio_columns [])
   \<and> load_crime_dataset
       \<lparr>CENSUS_DATA = Some census, CHICAGO_PUBLIC_SCHOOLS = schools', CHICAGO_CRIME_DATA = Some []\<rparr>
     = Inr (DataFrame crime_columns [])"
  by (simp add: load_socioeducation_dataset_present load_crime_dataset_present
      socio_sql_no_census crime_sql_no_crime)

text \<open>
  An empty joined table does not empty the result: with no school at all, every community
  of the census is still returned, with a school count of 0.
\<close>

theorem view_builder_empty_schools_counterexample:
  "load_socioeducation_dataset
       \<lparr>CENSUS_DATA = Some [census_oak_park], CHICAGO_PUBLIC_SCHOOLS = Some [],
        CHICAGO_CRIME_DATA = Some []\<rparr>
     = Inr (DataFrame socio_columns [oak_park_aggregate None 0])"
proof -
  have "socio_sql [census_oak_park] [] = [oak_park_aggregate None 0]"
    by (simp add: eval_socio)
  then show ?thesis
    by (simp add: load_socioeducation_dataset_present)
qed

section \<open>Properties of the ranking of crime types\<close>

lemma sum_list_indicator:
  "distinct ks \<Longrightarrow> (\<Sum>k\<leftarrow>ks. if a = k then 1 else 0) = (if a \<in> set ks then 1 else (0::nat))"
  by (induction ks) auto

lemma sum_group_sizes:
  assumes "distinct ks" and "key ` set df \<subseteq> set ks"
  shows "(\<Sum>k\<leftarrow>filter P ks. length (filter (\<lambda>r. key r = k) df)) = length (filter (\<lambda>r. P (key r)) df)"
  using assms(2)
proof (induction df)
  case Nil
  show ?case by simp
next
  case (Cons r df)
  have d: "distinct (filter P ks)" using assms(1) by simp
  from Cons.prems have in_ks: "key r \<in> set ks" by simp
  have "(\<Sum>k\<leftarrow>filter P ks. length (filter (\<lambda>x. key x = k) (r # df)))
          = (\<Sum>k\<leftarrow>filter P ks. (if key r = k then 1 else 0) + length (filter (\<lambda>x. key x = k) df))"
    by (rule arg_cong [where f = sum_list]) (rule map_cong, simp_all)
  also have "\<dots> = (\<Sum>k\<leftarrow>filter P ks. if key r = k then 1 else 0)
                    + (\<Sum>k\<leftarrow>filter P ks. length (filter (\<lambda>x. key x = k) df))"
    by (simp add: sum_list_addf)
  also have "(\<Sum>k\<leftarrow>filter P ks. if key r = k then 1 else 0) = (if P (key r) then 1 else (0::nat))"
    using sum_list_indicator [OF d, of "key r"] in_ks by simp
  also have "(\<Sum>k\<leftarrow>filter P ks. length (filter (\<lambda>x. key x = k) df)) = length (filter (\<lambda>r. P (key r)) df)"
    using Cons by simp
  finally show ?case by simp
qed

lemma grouped_type_total:
  "sum_list (map crime_count (filter (\<lambda>g. grouped_primary_type g = ty) (grouped cdf)))
     = frequency cdf ty"
proof -
  let ?key = "\<lambda>row. (snd row, primary_type (fst row))"
  let ?K = "sort (remdups (map ?key cdf))"
  let ?cnt = "\<lambda>k. length (filter (\<lambda>r. ?key r = k) cdf)"
  have g: "grouped cdf = map (\<lambda>k. (k, ?cnt k)) ?K"
    by (simp add: grouped_def groupby_size_def)
  have f: "filter (\<lambda>g. grouped_primary_type g = ty) (map (\<lambda>k. (k, ?cnt k)) ?K)
             = map (\<lambda>k. (k, ?cnt k)) (filter (\<lambda>k. snd k = ty) ?K)"
    by (simp add: filter_map comp_def grouped_primary_type_def)
  have "sum_list (map crime_count (filter (\<lambda>g. grouped_primary_type g = ty) (grouped cdf)))
     = (\<Sum>k\<leftarrow>filter (\<lambda>k. snd k = ty) ?K. ?cnt k)"
    unfolding g f by (simp add: comp_def crime_count_def)
  also have "\<dots> = length (filter (\<lambda>r. snd (?key r) = ty) cdf)"
    by (rule sum_group_sizes) simp_all
  also have "\<dots> = frequency cdf ty"
    by (simp add: frequency_def)
  finally show ?thesis .
qed

lemma type_totals:
  "groupby_sum grouped_primary_type crime_count (grouped cdf)
     = map (\<lambda>ty. (ty, frequency cdf ty)) (present_types cdf)"
  by (simp add: groupby_sum_def present_types_def grouped_type_total)

lemma distinct_present_types: "distinct (present_types cdf)"
  by (simp add: present_types_def)

lemma set_present_types: "set (present_types cdf) = (\<lambda>row. primary_type (fst row)) ` set cdf"
  by (simp add: present_types_def grouped_def groupby_size_def image_image grouped_primary_type_def)

lemma sort_values_descending_set [simp]: "set (sort_values_descending s) = set s"
  by (simp add: sort_values_descending_def)

lemma sort_values_descending_distinct [simp]:
  "distinct (sort_values_descending s) = distinct s"
  by (simp add: sort_values_descending_def)

lemma sort_values_descending_length [simp]: "length (sort_values_descending s) = length s"
  by (simp add: sort_values_descending_def)

lemma sort_values_descending_sorted:
  "sorted_wrt (\<lambda>a b. snd b \<le> snd a) (sort_values_descending s)"
proof -
  have "sorted (map snd (sort_key snd (rev s)))"
    by (rule sorted_sort_key)
  then have "sorted_wrt (\<lambda>a b. snd a \<le> snd b) (sort_key snd (rev s))"
    by (simp add: sorted_map)
  then show ?thesis
    by (simp add: sort_values_descending_def sorted_wrt_rev)
qed

lemma ranking_of_totals:
  fixes F :: "'k \<Rightarrow> nat"
  assumes "distinct T"
  defines "D \<equiv> sort_values_descending (map (\<lambda>ty. (ty, F ty)) T)"
  shows "length (map fst (take n D)) = min n (length T)"
    and "distinct (map fst (take n D))"
    and "set (map fst (take n D)) \<subseteq> set T"
    and "sorted_wrt (\<lambda>a b. F b \<le> F a) (map fst (take n D))"
    and "\<forall>v \<in> set (map fst (take n D)). \<forall>w \<in> set T - set (map fst (take n D)). F w \<le> F v"
proof -
  let ?S = "map (\<lambda>ty. (ty, F ty)) T"
  have setD: "set D = set ?S" by (simp add: D_def)
  have val: "snd p = F (fst p)" if "p \<in> set D" for p
    using that unfolding setD by auto
  have dS: "distinct ?S" using assms(1) by (simp add: distinct_map inj_on_def)
  have dD: "distinct D" using dS by (simp add: D_def)
  have inj: "inj_on fst (set D)"
    unfolding setD by (rule inj_onI) auto
  have dfst: "distinct (map fst D)"
    using dD inj by (simp add: distinct_map)
  have srt: "sorted_wrt (\<lambda>a b. snd b \<le> snd a) D"
    unfolding D_def by (rule sort_values_descending_sorted)
  have split: "D = take n D @ drop n D" by simp
  show "length (map fst (take n D)) = min n (length T)"
    by (simp add: D_def min.commute)
  show "distinct (map fst (take n D))"
    using dfst by (simp add: take_map [symmetric] distinct_take)
  show "set (map fst (take n D)) \<subseteq> set T"
  proof -
    have "set (take n D) \<subseteq> set D" by (rule set_take_subset)
    then have "fst ` set (take n D) \<subseteq> fst ` set ?S" unfolding setD by (rule image_mono)
    then show ?thesis by (simp add: image_image)
  qed
  show "sorted_wrt (\<lambda>a b. F b \<le> F a) (map fst (take n D))"
  proof -
    from srt have "sorted_wrt (\<lambda>a b. snd b \<le> snd a) (take n D)"
      by (rule sorted_wrt_take)
    then have "sorted_wrt (\<lambda>a b. F (fst b) \<le> F (fst a)) (take n D)"
    proof (rule sorted_wrt_mono_rel [rotated])
      fix a b
      assume "a \<in> set (take n D)" "b \<in> set (take n D)" "snd b \<le> snd a"
      then have "a \<in> set D" "b \<in> set D" "snd b \<le> snd a"
        using set_take_subset [of n D] by blast+
      then show "F (fst b) \<le> F (fst a)"
        using val [of a] val [of b] by simp
    qed
    then show ?thesis by (simp add: sorted_wrt_map)
  qed
  show "\<forall>v \<in> set (map fst (take n D)). \<forall>w \<in> set T - set (map fst (take n D)). F w \<le> F v"
  proof (intro ballI)
    fix v w
    assume v: "v \<in> set (map fst (take n D))"
      and w: "w \<in> set T - set (map fst (take n D))"
    from v obtain p where p: "p \<in> set (take n D)" "v = fst p" by auto
    from w have "(w, F w) \<in> set D" unfolding setD by auto
    moreover from w have "(w, F w) \<notin> set (take n D)" by force
    ultimately have q: "(w, F w) \<in> set (drop n D)"
      using split by (metis Un_iff set_append)
    from srt split have "sorted_wrt (\<lambda>a b. snd b \<le> snd a) (take n D @ drop n D)" by simp
    then have "\<forall>a \<in> set (take n D). \<forall>b \<in> set (drop n D). snd b \<le> snd a"
      unfolding sorted_wrt_append by blast
    with p(1) q have "snd (w, F w) \<le> snd p"
      by blast
    moreover from p(1) have "snd p = F (fst p)"
      using val set_take_subset [of n D] by blast
    ultimately show "F w \<le> F v" using p(2) by simp
  qed
qed

lemma top_crimes_take:
  "0 \<le> top_n \<Longrightarrow>
     top_crimes top_n (grouped cdf)
       = map fst (take (nat top_n)
           (sort_values_descending (map (\<lambda>ty. (ty, frequency cdf ty)) (present_types cdf))))"
  by (simp add: top_crimes_def head_def type_totals)

text \<open>
  Claim C6, as the code ranks. For a top-N parameter that is not negative, the ranking of
  the primary types of a frame holds the N most frequent types or all of them when there
  are fewer: no type twice, only types that occur, in descending order of frequency, and
  no type left out is more frequent than a type returned. Nothing is claimed on the order
  among types of equal frequency.
\<close>

theorem top_crimes_most_frequent:
  "0 \<le> top_n \<longrightarrow>
     length (top_crimes top_n (grouped cdf))
       = min (nat top_n) (card ((\<lambda>row. primary_type (fst row)) ` set cdf))
   \<and> length (top_crimes top_n (grouped cdf)) \<le> nat top_n
   \<and> distinct (top_crimes top_n (grouped cdf))
   \<and> set (top_crimes top_n (grouped cdf)) \<subseteq> (\<lambda>row. primary_type (fst row)) ` set cdf
   \<and> sorted_wrt (\<lambda>a b. frequency cdf b \<le> frequency cdf a) (top_crimes top_n (grouped cdf))
   \<and> (\<forall>v \<in> set (top_crimes top_n (grouped cdf)).
        \<forall>w \<in> (\<lambda>row. primary_type (fst row)) ` set cdf - set (top_crimes top_n (grouped cdf)).
          frequency cdf w \<le> frequency cdf v)"
proof
  assume n: "0 \<le> top_n"
  let ?T = "present_types cdf"
  let ?top = "top_crimes top_n (grouped cdf)"
  note eq = top_crimes_take [OF n, of cdf]
  note r = ranking_of_totals [where T = "present_types cdf" and F = "frequency cdf"
      and n = "nat top_n", OF distinct_present_types]
  have card: "length ?T = card ((\<lambda>row. primary_type (fst row)) ` set cdf)"
    using distinct_card [OF distinct_present_types, of cdf] by (simp add: set_present_types)
  have a: "length ?top = min (nat top_n) (card ((\<lambda>row. primary_type (fst row)) ` set cdf))"
    unfolding eq using r(1) card by simp
  have b: "distinct ?top"
    unfolding eq by (rule r(2))
  have c: "set ?top \<subseteq> (\<lambda>row. primary_type (fst row)) ` set cdf"
    unfolding eq using r(3) by (simp only: set_present_types)
  have d: "sorted_wrt (\<lambda>a b. frequency cdf b \<le> frequency cdf a) ?top"
    unfolding eq by (rule r(4))
  have e: "\<forall>v \<in> set ?top. \<forall>w \<in> (\<lambda>row. primary_type (fst row)) ` set cdf - set ?top.
          frequency cdf w \<le> frequency cdf v"
    unfolding eq using r(5) by (simp only: set_present_types)
  from a have a': "length ?top \<le> nat top_n" by simp
  from a a' b c d e
  show "length ?top = min (nat top_n) (card ((\<lambda>row. primary_type (fst row)) ` set cdf))
   \<and> length ?top \<le> nat top_n
   \<and> distinct ?top
   \<and> set ?top \<subseteq> (\<lambda>row. primary_type (fst row)) ` set cdf
   \<and> sorted_wrt (\<lambda>a b. frequency cdf b \<le> frequency cdf a) ?top
   \<and> (\<forall>v \<in> set ?top. \<forall>w \<in> (\<lambda>row. primary_type (fst row)) ` set cdf - set ?top.
          frequency cdf w \<le> frequency cdf v)"
    by (intro conjI)
qed

lemmas eval_ranking =
  top_crimes_def head_def sort_values_descending_def groupby_sum_def groupby_size_def
  grouped_def grouped_primary_type_def crime_count_def labelled_def crime_of_type_def
  example_crime_def Low_Income_Areas_def High_Income_Areas_def Unknown_Missing_Income_def
  less_eq_prod_def less_prod_def

theorem top_crimes_most_frequent_witness:
  "(0::int) \<le> 2
   \<and> top_crimes 2 (grouped six_crimes) = [''BATTERY'', ''THEFT'']
   \<and> length (top_crimes 2 (grouped six_crimes)) \<le> nat 2
   \<and> ''ASSAULT'' \<in> (\<lambda>row. primary_type (fst row)) ` set six_crimes
                      - set (top_crimes 2 (grouped six_crimes))
   \<and> sorted_wrt (\<lambda>a b. frequency six_crimes b \<le> frequency six_crimes a)
        (top_crimes 2 (grouped six_crimes))
   \<and> frequency six_crimes ''ASSAULT'' \<le> frequency six_crimes ''THEFT''
   \<and> frequency six_crimes ''ASSAULT'' \<le> frequency six_crimes ''BATTERY''"
proof -
  have h: "(0::int) \<le> 2" by simp
  have top: "top_crimes 2 (grouped six_crimes) = [''BATTERY'', ''THEFT'']"
    by (simp add: six_crimes_def eval_ranking)
  have out: "''ASSAULT'' \<in> (\<lambda>row. primary_type (fst row)) ` set six_crimes
                      - set (top_crimes 2 (grouped six_crimes))"
    unfolding top by (simp add: six_crimes_def labelled_def crime_of_type_def)
  note t = top_crimes_most_frequent [of 2 six_crimes, THEN mp, OF h]
  from t have t2: "length (top_crimes 2 (grouped six_crimes)) \<le> nat 2" by blast
  from t have t5: "sorted_wrt (\<lambda>a b. frequency six_crimes b \<le> frequency six_crimes a)
        (top_crimes 2 (grouped six_crimes))" by blast
  from t have t6: "\<forall>v \<in> set (top_crimes 2 (grouped six_crimes)).
        \<forall>w \<in> (\<lambda>row. primary_type (fst row)) ` set six_crimes
               - set (top_crimes 2 (grouped six_crimes)).
          frequency six_crimes w \<le> frequency six_crimes v" by blast
  have in1: "''THEFT'' \<in> set (top_crimes 2 (grouped six_crimes))"
    and in2: "''BATTERY'' \<in> set (top_crimes 2 (grouped six_crimes))"
    unfolding top by simp_all
  from t6 in1 out have f1: "frequency six_crimes ''ASSAULT'' \<le> frequency six_crimes ''THEFT''"
    by blast
  from t6 in2 out have f2: "frequency six_crimes ''ASSAULT'' \<le> frequency six_crimes ''BATTERY''"
    by blast
  from h top t2 out t5 f1 f2 show ?thesis by (intro conjI)
qed

text \<open>
  The ranking reads the input through \<open>grouped\<close>, whose rows are in the order of the
  sorted keys whatever the order of the input: the same two records in either order give
  the same frame and the same first type, so types of equal frequency do not come out in
  the order in which the input first shows them. And with a negative top-N parameter
  \<open>head\<close> returns all types but the last ones, more than N values.
\<close>

theorem top_crimes_tie_order_counterexample:
  "map primary_type [crime_of_type ''THEFT'' (Some 9000), crime_of_type ''ASSAULT'' (Some 9000)]
     = [''THEFT'', ''ASSAULT'']
   \<and> grouped [labelled ''THEFT'', labelled ''ASSAULT'']
     = grouped [labelled ''ASSAULT'', labelled ''THEFT'']
   \<and> hotspots_top_crimes
        [crime_of_type ''THEFT'' (Some 9000), crime_of_type ''ASSAULT'' (Some 9000)] 10000 1
     = Some [''ASSAULT'']
   \<and> hotspots_top_crimes
        [crime_of_type ''ASSAULT'' (Some 9000), crime_of_type ''THEFT'' (Some 9000)] 10000 1
     = Some [''ASSAULT'']
   \<and> hotspots_top_crimes
        [crime_of_type ''THEFT'' (Some 9000), crime_of_type ''ASSAULT'' (Some 9000),
         crime_of_type ''BATTERY'' (Some 9000)] 10000 (- 1)
     = Some [''ASSAULT'', ''BATTERY'']"
proof -
  have w2: "compare_df (working_df 10000
              [crime_of_type ''THEFT'' (Some 9000), crime_of_type ''ASSAULT'' (Some 9000)])
            = [labelled ''THEFT'', labelled ''ASSAULT'']"
    by (simp add: compare_df_def working_df_def income_segment_def np_where_def isna_def
        le_threshold_def labelled_def crime_of_type_def example_crime_def)
  have w2': "compare_df (working_df 10000
              [crime_of_type ''ASSAULT'' (Some 9000), crime_of_type ''THEFT'' (Some 9000)])
            = [labelled ''ASSAULT'', labelled ''THEFT'']"
    by (simp add: compare_df_def working_df_def income_segment_def np_where_def isna_def
        le_threshold_def labelled_def crime_of_type_def example_crime_def)
  have w3: "compare_df (working_df 10000
              [crime_of_type ''THEFT'' (Some 9000), crime_of_type ''ASSAULT'' (Some 9000),
               crime_of_type ''BATTERY'' (Some 9000)])
            = [labelled ''THEFT'', labelled ''ASSAULT'', labelled ''BATTERY'']"
    by (simp add: compare_df_def working_df_def income_segment_def np_where_def isna_def
        le_threshold_def labelled_def crime_of_type_def example_crime_def)
  have g: "grouped [labelled ''THEFT'', labelled ''ASSAULT'']
             = grouped [labelled ''ASSAULT'', labelled ''THEFT'']"
    by (simp add: eval_ranking)
  have t2: "top_crimes 1 (grouped [labelled ''THEFT'', labelled ''ASSAULT'']) = [''ASSAULT'']"
    by (simp add: eval_ranking)
  have t3: "top_crimes (- 1) (grouped [labelled ''THEFT'', labelled ''ASSAULT'', labelled ''BATTERY''])
              = [''ASSAULT'', ''BATTERY'']"
    by (simp add: eval_ranking)
  have a: "map primary_type [crime_of_type ''THEFT'' (Some 9000), crime_of_type ''ASSAULT'' (Some 9000)]
     = [''THEFT'', ''ASSAULT'']"
    by (simp add: crime_of_type_def)
  have b: "hotspots_top_crimes
        [crime_of_type ''THEFT'' (Some 9000), crime_of_type ''ASSAULT'' (Some 9000)] 10000 1
     = Some [''ASSAULT'']"
    unfolding hotspots_top_crimes_def Let_def w2 t2 by simp
  have b': "hotspots_top_crimes
        [crime_of_type ''ASSAULT'' (Some 9000), crime_of_type ''THEFT'' (Some 9000)] 10000 1
     = Some [''ASSAULT'']"
    unfolding hotspots_top_crimes_def Let_def w2' g [symmetric] t2 by simp
  have c: "hotspots_top_crimes
        [crime_of_type ''THEFT'' (Some 9000), crime_of_type ''ASSAULT'' (Some 9000),
         crime_of_type ''BATTERY'' (Some 9000)] 10000 (- 1)
     = Some [''ASSAULT'', ''BATTERY'']"
    unfolding hotspots_top_crimes_def Let_def w3 t3 by simp
  from a g b b' c show ?thesis by (intro conjI)
qed

section \<open>Problems 8 and 10 of the report\<close>







section \<open>The run of the ten problems\<close>

lemma execute_query_caught:
  "conn n = Fetch_failed msg \<Longrightarrow>
     execute_query conn n out = (Inr None, out @ [Error_executing_query n msg])"
  by (simp add: execute_query_def pd_read_sql_query_def)

lemma execute_query_not_caught:
  "conn n = Execute_failed msg \<Longrightarrow> execute_query conn n out = (Inl (DatabaseError msg), out)"
  by (simp add: execute_query_def pd_read_sql_query_def)

lemma run_problems_abort:
  "conn n = Execute_failed msg \<Longrightarrow>
     run_problems conn (n # ns) out = (Some (DatabaseError msg), out)"
  by (simp add: execute_query_not_caught)

lemma run_problems_complete:
  "\<forall>n \<in> set ns. \<forall>msg. conn n \<noteq> Execute_failed msg \<Longrightarrow>
     fst (run_problems conn ns out) = None
     \<and> length out + length ns \<le> length (snd (run_problems conn ns out))"
proof (induction ns arbitrary: out)
  case Nil
  show ?case by simp
next
  case (Cons n ns)
  from Cons.prems have rest: "\<forall>n \<in> set ns. \<forall>msg. conn n \<noteq> Execute_failed msg" by simp
  from Cons.prems obtain r out' where e: "execute_query conn n out = (Inr r, out')"
    and l: "length out \<le> length out'"
    by (cases "conn n") (auto simp add: execute_query_def pd_read_sql_query_def)
  have "length out' + 1 \<le> length (display_results n r out')"
    by (simp add: display_results_def split: option.splits)
  with Cons.IH [OF rest, of "display_results n r out'"] e l show ?case by simp
qed

text \<open>
  Claim C1, at the inputs where the code breaks it. On a database without any table the
  first problem fails in \<open>cursor.execute\<close>; the exception pandas raises is not a
  \<open>sqlite3.Error\<close>, so \<open>execute_query\<close> lets it through and \<open>run_analysis\<close> ends with
  it, nothing reported and problems 2 to 10 not run. On a database that lacks the census
  table only, problem 1 is reported and problem 2 ends the run, before the problems on the
  crime and schools tables that would succeed.
\<close>

theorem run_analysis_aborts_on_missing_table:
  "run_analysis (sqlite_connection no_tables other_rows)
     = (Some (DatabaseError ''no such table: CHICAGO_CRIME_DATA''), [])
   \<and> run_analysis (sqlite_connection no_census other_rows)
     = (Some (DatabaseError ''no such table: CENSUS_DATA''),
        [Results 1 (DataFrame [''TOTAL_CRIMES''] [[Integer 0]])])"
  by (simp add: run_analysis_def execute_query_def pd_read_sql_query_def sqlite_connection_def
      missing_table_def no_tables_def no_census_def statement_rows_def display_results_def)

end
